theory Spec2Isabelle
  imports Complex_Main "HOL-Library.Char_ord" "HOL-Library.List_Lexorder"
begin

section \<open>JavaScript values, as far as documentProducer.js inspects them\<close>

text \<open>
  The values that can sit in the \<open>item\<close> field of an order-by entry.  They arrive as
  parsed JSON, so a number is a finite double (JSON has neither NaN nor infinities) and
  the order of finite doubles is the order of the reals they denote.  Strings are
  compared by JavaScript code unit by code unit; here they are \<open>char list\<close> under the
  lexicographic order of the character codes.
\<close>

datatype jsval =
    JUndefined
  | JNull
  | JBool bool
  | JNum real
  | JStr string
  | JObject "(string \<times> jsval) list"

text \<open>The \<open>typeof\<close> operator; \<open>typeof null\<close> is \<open>object\<close>.\<close>

fun typeof :: "jsval \<Rightarrow> string" where
  "typeof JUndefined = ''undefined''"
| "typeof JNull = ''object''"
| "typeof (JBool b) = ''boolean''"
| "typeof (JNum n) = ''number''"
| "typeof (JStr s) = ''string''"
| "typeof (JObject ps) = ''object''"

text \<open>
  A plain object is its list of own properties.  \<open>k in o\<close> asks whether the property is
  there, \<open>o[k]\<close> reads it and gives \<open>undefined\<close> when it is not.
\<close>

type_synonym jsobject = "(string \<times> jsval) list"

definition has_property :: "string \<Rightarrow> (string \<times> 'v) list \<Rightarrow> bool" where
  "has_property k ob = (map_of ob k \<noteq> None)"

definition get_property :: "jsobject \<Rightarrow> string \<Rightarrow> jsval" where
  "get_property ob k = (case map_of ob k of None \<Rightarrow> JUndefined | Some v \<Rightarrow> v)"

text \<open>
  \<open>!s\<close> on a string is true exactly for the empty string, and a boolean used as a
  property key is converted to the string \<open>true\<close> or \<open>false\<close>.  Both are needed for
  \<open>!'item' in orderByItem\<close>, which JavaScript parses as \<open>(!'item') in orderByItem\<close>.
\<close>

definition js_not_string :: "string \<Rightarrow> bool" where
  "js_not_string s = (s = [])"

definition property_key_of_bool :: "bool \<Rightarrow> string" where
  "property_key_of_bool b = (if b then ''true'' else ''false'')"

text \<open>
  What the code can throw: \<open>Error\<close> is what \<open>_throwIf\<close> raises (the validation error),
  \<open>TypeError\<close> is the runtime's own error on reading a property of \<open>undefined\<close>,
  \<open>AssertionError\<close> comes from the \<open>assert\<close> module.  \<open>Unmodelled\<close> marks the one place
  where this development does not follow JavaScript: \<open>==\<close> and \<open>>\<close> on two operands of
  different primitive types (see \<open>compFunc\<close>).
\<close>

datatype js_exception =
    Error string
  | TypeError string
  | AssertionError string
  | Unmodelled string

section \<open>OrderByDocumentProducerComparator\<close>

subsection \<open>The frozen table \<open>_typeOrdComparator\<close>\<close>

text \<open>
  The three \<open>compFunc\<close> entries have the same text, \<open>a == b ? 0 : (a > b ? 1 : -1)\<close>.
  On two booleans \<open>false < true\<close>, on two numbers the numeric order, on two strings the
  lexicographic one.  Operands of different primitive types would be coerced by
  JavaScript; that case is not modelled and is reported as such.
\<close>

fun compFunc :: "jsval \<Rightarrow> jsval \<Rightarrow> js_exception + int" where
  "compFunc (JBool a) (JBool b) = Inr (if a = b then 0 else if a > b then 1 else -1)"
| "compFunc (JNum a) (JNum b) = Inr (if a = b then 0 else if a > b then 1 else -1)"
| "compFunc (JStr a) (JStr b) = Inr (if a = b then 0 else if a > b then 1 else -1)"
| "compFunc a b = Inl (Unmodelled ''loose comparison of mixed operands'')"

record typeOrdEntry =
  ord :: int
  compFunc_of :: "(jsval \<Rightarrow> jsval \<Rightarrow> js_exception + int) option"

definition typeOrdComparator_entries :: "(string \<times> typeOrdEntry) list" where
  "typeOrdComparator_entries =
    [(''NoValue'', \<lparr>ord = 0, compFunc_of = None\<rparr>),
     (''undefined'', \<lparr>ord = 1, compFunc_of = None\<rparr>),
     (''boolean'', \<lparr>ord = 2, compFunc_of = Some compFunc\<rparr>),
     (''number'', \<lparr>ord = 4, compFunc_of = Some compFunc\<rparr>),
     (''string'', \<lparr>ord = 5, compFunc_of = Some compFunc\<rparr>)]"

definition typeOrdComparator :: "string \<Rightarrow> typeOrdEntry option" where
  "typeOrdComparator t = map_of typeOrdComparator_entries t"

definition ord_of :: "string \<Rightarrow> int option" where
  "ord_of t = map_option ord (typeOrdComparator t)"

subsection \<open>\<open>getType\<close>, \<open>compareValue\<close>, \<open>compareOrderByItem\<close>\<close>

text \<open>
  \<open>getType\<close> as it is written.  The first test is \<open>(!'item') in orderByItem\<close>, that is,
  whether the entry has a property named \<open>false\<close>; the second is
  \<open>(!type) in this._typeOrdComparator\<close>.
\<close>

definition getType :: "jsobject \<Rightarrow> js_exception + string" where
  "getType orderByItem =
    (if has_property (property_key_of_bool (js_not_string ''item'')) orderByItem
     then Inr ''NoValue''
     else
       let type = typeof (get_property orderByItem ''item'') in
       if has_property (property_key_of_bool (js_not_string type)) typeOrdComparator_entries
       then Inl (Error (''unrecognizable type '' @ type))
       else Inr type)"

text \<open>
  \<open>this._typeOrdComparator[type1].ord\<close> throws a TypeError when the table has no entry
  for the type; \<open>assert.notEqual(compFunc, undefined, ...)\<close> throws when the entry has no
  comparison function.
\<close>

definition compareValue :: "jsval \<Rightarrow> string \<Rightarrow> jsval \<Rightarrow> string \<Rightarrow> js_exception + int" where
  "compareValue item1 type1 item2 type2 =
    (case typeOrdComparator type1 of
       None \<Rightarrow> Inl (TypeError ''cannot read property ord of undefined'')
     | Some e1 \<Rightarrow>
    (case typeOrdComparator type2 of
       None \<Rightarrow> Inl (TypeError ''cannot read property ord of undefined'')
     | Some e2 \<Rightarrow>
       let type1Ord = ord e1; type2Ord = ord e2; typeCmp = type1Ord - type2Ord in
       if typeCmp \<noteq> 0 then Inr typeCmp
       else if Some type1Ord = ord_of ''undefined'' \<or> Some type1Ord = ord_of ''NoValue''
       then Inr 0
       else (case compFunc_of e1 of
               None \<Rightarrow> Inl (AssertionError ''cannot find the comparison function'')
             | Some f \<Rightarrow> f item1 item2)))"

definition compareOrderByItem :: "jsobject \<Rightarrow> jsobject \<Rightarrow> js_exception + int" where
  "compareOrderByItem orderByItem1 orderByItem2 =
    (case getType orderByItem1 of
       Inl e \<Rightarrow> Inl e
     | Inr type1 \<Rightarrow>
    (case getType orderByItem2 of
       Inl e \<Rightarrow> Inl e
     | Inr type2 \<Rightarrow>
       compareValue (get_property orderByItem1 ''item'') type1
                    (get_property orderByItem2 ''item'') type2))"

section \<open>DocumentProducer\<close>

subsection \<open>State and injected collaborators\<close>

text \<open>
  A continuation token is \<open>undefined\<close>, \<open>null\<close> or a string; the code compares tokens
  with \<open>===\<close>, which on these values is equality.
\<close>

datatype token = TUndefined | TNull | TString string

text \<open>
  The second argument of the fetch callback: \<open>undefined\<close>, \<open>null\<close>, or an array of items.
  The code tests it once with \<open>===\<close> and once with \<open>!=\<close>, so the three are kept apart.
\<close>

datatype 'a resources = ResUndefined | ResNull | ResItems "'a list"

record partitionKeyRange =
  rangeId :: string
  minInclusive :: string
  maxExclusive :: string

text \<open>
  \<open>DefaultQueryExecutionContext\<close> and \<open>HeaderUtils\<close> are required from other files.  They
  enter as parameters: \<open>fetchMore\<close> takes the execution context's state and gives what it
  passes to its callback \<open>(err, resources, headerResponse)\<close> together with the
  context's next state; \<open>continuation\<close> reads the context's \<open>continuation\<close> field;
  \<open>mergeHeaders\<close> gives the first header object as it is after the in-place merge.
  An error is \<open>Some e\<close> when the JavaScript value is truthy.
\<close>

record ('a, 'e, 'h, 'c) collaborators =
  fetchMore :: "'c \<Rightarrow> ('e option \<times> 'a resources \<times> 'h) \<times> 'c"
  continuation :: "'c \<Rightarrow> token"
  getInitialHeader :: "'h"
  mergeHeaders :: "'h \<Rightarrow> 'h option \<Rightarrow> 'h"

text \<open>
  The fields the constructor sets and the methods change; \<open>documentclient\<close>,
  \<open>collectionLink\<close> and \<open>query\<close> only serve to build the fetch function, which is part
  of the collaborators here.  \<open>fetchCalls\<close> is not a field of the source: it counts the
  invocations of \<open>internalExecutionContext.fetchMore\<close>, so that "does not fetch" can be
  said.
\<close>

record ('a, 'e, 'h, 'c) DocumentProducer =
  targetPartitionKeyRange :: partitionKeyRange
  itemsBuffer :: "'a list"
  allFetched :: bool
  err :: "'e option"
  previousContinuationToken :: token
  continuationToken :: token
  respHeaders :: "'h"
  internalExecutionContext :: "'c"
  fetchCalls :: nat

definition newDocumentProducer ::
  "('a, 'e, 'h, 'c) collaborators \<Rightarrow> partitionKeyRange \<Rightarrow> 'c \<Rightarrow> ('a, 'e, 'h, 'c) DocumentProducer" where
  "newDocumentProducer d pkRange ctx =
    \<lparr>targetPartitionKeyRange = pkRange,
     itemsBuffer = [],
     allFetched = False,
     err = None,
     previousContinuationToken = TUndefined,
     continuationToken = TUndefined,
     respHeaders = getInitialHeader d,
     internalExecutionContext = ctx,
     fetchCalls = 0\<rparr>"

subsection \<open>Methods\<close>

definition peekBufferedItems :: "('a, 'e, 'h, 'c) DocumentProducer \<Rightarrow> 'a list" where
  "peekBufferedItems p = itemsBuffer p"

definition getTargetParitionKeyRange :: "('a, 'e, 'h, 'c) DocumentProducer \<Rightarrow> partitionKeyRange" where
  "getTargetParitionKeyRange p = targetPartitionKeyRange p"

definition getAndResetActiveResponseHeaders ::
  "('a, 'e, 'h, 'c) collaborators \<Rightarrow> ('a, 'e, 'h, 'c) DocumentProducer
    \<Rightarrow> 'h \<times> ('a, 'e, 'h, 'c) DocumentProducer" where
  "getAndResetActiveResponseHeaders d p = (respHeaders p, p\<lparr>respHeaders := getInitialHeader d\<rparr>)"

definition updateStates ::
  "('a, 'e, 'h, 'c) collaborators \<Rightarrow> 'e option \<Rightarrow> bool \<Rightarrow> ('a, 'e, 'h, 'c) DocumentProducer
    \<Rightarrow> ('a, 'e, 'h, 'c) DocumentProducer" where
  "updateStates d error allFetched' p =
    (case error of
       Some e \<Rightarrow> p\<lparr>err := Some e\<rparr>
     | None \<Rightarrow>
       let p1 = (if allFetched' then p\<lparr>allFetched := True\<rparr> else p) in
       if continuation d (internalExecutionContext p1) = continuationToken p1
       then p1
       else p1\<lparr>previousContinuationToken := continuationToken p1,
                continuationToken := continuation d (internalExecutionContext p1)\<rparr>)"

definition consumeBufferedItems ::
  "('a, 'e, 'h, 'c) collaborators \<Rightarrow> ('a, 'e, 'h, 'c) DocumentProducer
    \<Rightarrow> 'a list \<times> ('a, 'e, 'h, 'c) DocumentProducer" where
  "consumeBufferedItems d p =
    (let res = itemsBuffer p;
         p1 = p\<lparr>itemsBuffer := []\<rparr>;
         p2 = updateStates d None
                (continuationToken p1 = TNull \<or> continuationToken p1 = TUndefined) p1
     in (res, p2))"

text \<open>
  \<open>bufferMore\<close>: what the callback receives, and the producer afterwards.  With a stored
  error the callback gets the error alone, its other two arguments being \<open>undefined\<close>.
\<close>

definition bufferMore ::
  "('a, 'e, 'h, 'c) collaborators \<Rightarrow> ('a, 'e, 'h, 'c) DocumentProducer
    \<Rightarrow> ('e option \<times> 'a resources \<times> 'h option) \<times> ('a, 'e, 'h, 'c) DocumentProducer" where
  "bufferMore d p =
    (case err p of
       Some e \<Rightarrow> ((Some e, ResUndefined, None), p)
     | None \<Rightarrow>
       (case fetchMore d (internalExecutionContext p) of
          ((error, resources, headerResponse), ctx') \<Rightarrow>
            let p1 = p\<lparr>internalExecutionContext := ctx', fetchCalls := Suc (fetchCalls p)\<rparr>;
                p2 = updateStates d error (resources = ResUndefined) p1
            in (case error of
                  Some e \<Rightarrow> ((Some e, ResUndefined, Some headerResponse), p2)
                | None \<Rightarrow>
                    (case resources of
                       ResItems xs \<Rightarrow>
                         ((None, resources, Some headerResponse),
                          p2\<lparr>itemsBuffer := itemsBuffer p2 @ xs\<rparr>)
                     | _ \<Rightarrow> ((None, resources, Some headerResponse), p2)))))"

text \<open>
  \<open>current\<close> calls itself after a refill that brought a defined \<open>resources\<close>, and a fetch
  layer that keeps answering with empty pages keeps it going for ever: the result is
  \<open>None\<close> when the callback is never invoked.
\<close>

partial_function (option) current ::
  "('a, 'e, 'h, 'c) collaborators \<Rightarrow> ('a, 'e, 'h, 'c) DocumentProducer
    \<Rightarrow> (('e option \<times> 'a option \<times> 'h option) \<times> ('a, 'e, 'h, 'c) DocumentProducer) option" where
  "current d p =
    (case itemsBuffer p of
       x # xs \<Rightarrow>
         (case getAndResetActiveResponseHeaders d p of
            (h, p') \<Rightarrow> Some ((None, Some x, Some h), p'))
     | [] \<Rightarrow>
         if allFetched p
         then (case getAndResetActiveResponseHeaders d p of
                 (h, p') \<Rightarrow> Some ((None, None, Some h), p'))
         else
           (case bufferMore d p of
              ((Some e, items, headers), p') \<Rightarrow> Some ((Some e, None, headers), p')
            | ((None, ResUndefined, headers), p') \<Rightarrow> Some ((None, None, headers), p')
            | ((None, _, headers), p') \<Rightarrow>
                current d (p'\<lparr>respHeaders := mergeHeaders d (respHeaders p') headers\<rparr>)))"

declare current.simps [code]

text \<open>
  \<open>nextItem\<close> either invokes its callback or lets the AssertionError of
  \<open>assert.equal(extracted, item)\<close> escape.  \<open>shift\<close> on an empty array gives \<open>undefined\<close>
  and leaves the array empty.  \<open>assert.equal\<close> compares with \<open>==\<close>; on object references
  and on \<open>undefined\<close> that is identity, here equality of the item type.
\<close>

datatype ('e, 'a, 'h) outcome =
    Callback "'e option" "'a option" "'h option"
  | Throws js_exception

definition shift :: "'a list \<Rightarrow> 'a option \<times> 'a list" where
  "shift xs = (case xs of [] \<Rightarrow> (None, []) | x # rest \<Rightarrow> (Some x, rest))"

definition nextItem ::
  "('a, 'e, 'h, 'c) collaborators \<Rightarrow> ('a, 'e, 'h, 'c) DocumentProducer
    \<Rightarrow> (('e, 'a, 'h) outcome \<times> ('a, 'e, 'h, 'c) DocumentProducer) option" where
  "nextItem d p =
    (case err p of
       Some e \<Rightarrow> Some (Callback (Some e) None None, p)
     | None \<Rightarrow>
       (case current d p of
          None \<Rightarrow> None
        | Some ((Some e, item, headers), p') \<Rightarrow> Some (Callback (Some e) None headers, p')
        | Some ((None, item, headers), p') \<Rightarrow>
            (case shift (itemsBuffer p') of
               (extracted, rest) \<Rightarrow>
                 let p'' = p'\<lparr>itemsBuffer := rest\<rparr> in
                 if extracted = item
                 then Some (Callback None item headers, p'')
                 else Some (Throws (AssertionError ''extracted == item''), p''))))"

section \<open>The order-by comparator over producers\<close>

text \<open>
  A buffered result of an order-by query carries its projection in \<open>orderByItems\<close>;
  \<open>payload\<close> stands for the rest of the document.
\<close>

record 'b orderByResult =
  orderByItems :: "jsobject list"
  payload :: "'b"

definition getOrderByItems :: "'b orderByResult \<Rightarrow> jsobject list" where
  "getOrderByItems res = orderByItems res"

definition throwIf :: "bool \<Rightarrow> string \<Rightarrow> js_exception + unit" where
  "throwIf condition msg = (if condition then Inl (Error msg) else Inr ())"

text \<open>
  \<open>createTargetPartitionKeyRangeComparator\<close>: \<open>a == b ? 0 : (a > b ? 1 : -1)\<close> on the two
  \<open>minInclusive\<close> strings.
\<close>

definition targetPartitionKeyRangeComparator ::
  "('a, 'e, 'h, 'c) DocumentProducer \<Rightarrow> ('a, 'e, 'h, 'c) DocumentProducer \<Rightarrow> int" where
  "targetPartitionKeyRangeComparator docProd1 docProd2 =
    (let a = minInclusive (getTargetParitionKeyRange docProd1);
         b = minInclusive (getTargetParitionKeyRange docProd2)
     in if a = b then 0 else if a > b then 1 else -1)"

text \<open>
  The loop of \<open>validateOrderByItems\<close> runs over the positions of \<open>sortOrder\<close> and reads
  \<open>res1[i]\<close> and \<open>res2[i]\<close>; past the end of an array the read gives \<open>undefined\<close>, on
  which the \<open>in\<close> of \<open>getType\<close> throws a TypeError.  The first \<open>_throwIf\<close> formats its
  message from \<open>type1\<close> and \<open>type2\<close> before they are assigned.
\<close>

fun validateTypes :: "string list \<Rightarrow> jsobject list \<Rightarrow> jsobject list \<Rightarrow> js_exception + unit" where
  "validateTypes [] res1 res2 = Inr ()"
| "validateTypes (s # sortOrder) (x # res1) (y # res2) =
    (case getType x of
       Inl e \<Rightarrow> Inl e
     | Inr type1 \<Rightarrow>
    (case getType y of
       Inl e \<Rightarrow> Inl e
     | Inr type2 \<Rightarrow>
    (case throwIf (type1 \<noteq> type2) (''Expected '' @ type1 @ '', but got '' @ type2 @ ''.'') of
       Inl e \<Rightarrow> Inl e
     | Inr u \<Rightarrow> validateTypes sortOrder res1 res2)))"
| "validateTypes (s # sortOrder) res1 res2 =
    Inl (TypeError ''cannot use in operator on undefined'')"

definition validateOrderByItems ::
  "string list \<Rightarrow> jsobject list \<Rightarrow> jsobject list \<Rightarrow> js_exception + unit" where
  "validateOrderByItems sortOrder res1 res2 =
    (case throwIf (length res1 \<noteq> length res2) ''Expected undefined, but got undefined.'' of
       Inl e \<Rightarrow> Inl e
     | Inr u \<Rightarrow>
    (case throwIf (length res1 \<noteq> length sortOrder)
            ''orderByItems cannot have a different size than sort orders.'' of
       Inl e \<Rightarrow> Inl e
     | Inr u \<Rightarrow> validateTypes sortOrder res1 res2))"

text \<open>
  The \<open>for\<close> loop of \<open>compare\<close>, over the positions of \<open>orderByItemsRes1\<close>.  \<open>Some r\<close> is a
  \<open>return r\<close> inside the loop, \<open>None\<close> is the loop running to its end.  A non-zero
  \<open>compRes\<close> under a sort order that is neither \<open>Ascending\<close> nor \<open>Descending\<close> (also the
  \<open>undefined\<close> read past the end of \<open>sortOrder\<close>) returns nothing and the loop goes on.
\<close>

fun compareItems :: "string list \<Rightarrow> jsobject list \<Rightarrow> jsobject list \<Rightarrow> js_exception + int option" where
  "compareItems sortOrder [] res2 = Inr None"
| "compareItems sortOrder (x # res1) [] = Inl (TypeError ''cannot use in operator on undefined'')"
| "compareItems sortOrder (x # res1) (y # res2) =
    (case compareOrderByItem x y of
       Inl e \<Rightarrow> Inl e
     | Inr compRes \<Rightarrow>
         if compRes \<noteq> 0 \<and> sortOrder \<noteq> [] \<and> hd sortOrder = ''Ascending'' then Inr (Some compRes)
         else if compRes \<noteq> 0 \<and> sortOrder \<noteq> [] \<and> hd sortOrder = ''Descending'' then Inr (Some (- compRes))
         else compareItems (tl sortOrder) res1 res2)"

text \<open>
  \<open>compare\<close>.  \<open>peekBufferedItems()[0]\<close> of an empty buffer is \<open>undefined\<close>, and
  \<open>getOrderByItems\<close> throws a TypeError on it.
\<close>

definition compare ::
  "string list \<Rightarrow> ('b orderByResult, 'e, 'h, 'c) DocumentProducer
    \<Rightarrow> ('b orderByResult, 'e, 'h, 'c) DocumentProducer \<Rightarrow> js_exception + int" where
  "compare sortOrder docProd1 docProd2 =
    (case (peekBufferedItems docProd1, peekBufferedItems docProd2) of
       (r1 # rest1, r2 # rest2) \<Rightarrow>
         (let orderByItemsRes1 = getOrderByItems r1;
              orderByItemsRes2 = getOrderByItems r2
          in (case validateOrderByItems sortOrder orderByItemsRes1 orderByItemsRes2 of
                Inl e \<Rightarrow> Inl e
              | Inr u \<Rightarrow>
             (case compareItems sortOrder orderByItemsRes1 orderByItemsRes2 of
                Inl e \<Rightarrow> Inl e
              | Inr (Some r) \<Rightarrow> Inr r
              | Inr None \<Rightarrow> Inr (targetPartitionKeyRangeComparator docProd1 docProd2))))
     | _ \<Rightarrow> Inl (TypeError ''cannot read property orderByItems of undefined''))"

section \<open>Runs and concrete instances\<close>

text \<open>
  A run of \<open>n\<close> calls of \<open>bufferMore\<close>, each of which reported success to its callback,
  with the items those callbacks were handed, in order (\<open>None\<close> as soon as one call
  reports an error).  \<open>appended\<close> is what \<open>concat\<close> adds for the \<open>resources\<close> of one call.
\<close>

definition appended :: "'a resources \<Rightarrow> 'a list" where
  "appended resources = (case resources of ResItems xs \<Rightarrow> xs | _ \<Rightarrow> [])"

fun refills ::
  "('a, 'e, 'h, 'c) collaborators \<Rightarrow> nat \<Rightarrow> ('a, 'e, 'h, 'c) DocumentProducer
    \<Rightarrow> ('a list \<times> ('a, 'e, 'h, 'c) DocumentProducer) option" where
  "refills d 0 p = Some ([], p)"
| "refills d (Suc n) p =
    (case bufferMore d p of
       ((Some e, resources, headers), p') \<Rightarrow> None
     | ((None, resources, headers), p') \<Rightarrow>
         (case refills d n p' of
            None \<Rightarrow> None
          | Some (xs, q) \<Rightarrow> Some (appended resources @ xs, q)))"

text \<open>
  A fetch layer that replays a fixed list of pages: each page is what the callback gets
  and the value of \<open>continuation\<close> afterwards; past the last page it reports the end of
  the data.  Headers are a number (a request charge) and merging adds them.
\<close>

type_synonym ('a, 'e) page = "('e option \<times> 'a resources \<times> nat) \<times> token"

definition scriptedFetch :: "('a, 'e, nat, token \<times> ('a, 'e) page list) collaborators" where
  "scriptedFetch =
    \<lparr>fetchMore = (\<lambda>(t, pages). case pages of
                       [] \<Rightarrow> ((None, ResUndefined, 0), (TUndefined, []))
                     | (r, t') # rest \<Rightarrow> (r, (t', rest))),
     continuation = fst,
     getInitialHeader = 0,
     mergeHeaders = (\<lambda>a b. a + (case b of None \<Rightarrow> 0 | Some n \<Rightarrow> n))\<rparr>"

definition wholeRange :: partitionKeyRange where
  "wholeRange = \<lparr>rangeId = ''0'', minInclusive = [], maxExclusive = ''FF''\<rparr>"

definition freshProducer ::
  "(nat, string) page list \<Rightarrow> (nat, string, nat, token \<times> (nat, string) page list) DocumentProducer" where
  "freshProducer pages = newDocumentProducer scriptedFetch wholeRange (TUndefined, pages)"

text \<open>A producer of the partition starting at \<open>lowerBound\<close> that holds one fetched result.\<close>

definition bufferedProducer ::
  "string \<Rightarrow> jsobject list \<Rightarrow> (unit orderByResult, unit, unit, unit) DocumentProducer" where
  "bufferedProducer lowerBound projection =
    \<lparr>targetPartitionKeyRange =
       \<lparr>rangeId = ''0'', minInclusive = lowerBound, maxExclusive = ''FF''\<rparr>,
     itemsBuffer = [\<lparr>orderByItems = projection, payload = ()\<rparr>],
     allFetched = False,
     err = None,
     previousContinuationToken = TUndefined,
     continuationToken = TUndefined,
     respHeaders = (),
     internalExecutionContext = (),
     fetchCalls = 1\<rparr>"

text \<open>
  Three producers reached from a fresh one by calls of \<open>bufferMore\<close>: one whose only fetch
  failed, one that buffered a page and then failed on the next fetch, and one whose
  fetch reported the end of the data.
\<close>

definition failedProducer ::
  "(nat, string, nat, token \<times> (nat, string) page list) DocumentProducer" where
  "failedProducer =
    snd (bufferMore scriptedFetch (freshProducer [((Some ''boom'', ResUndefined, 1), TUndefined)]))"

definition failedAfterPage ::
  "(nat, string, nat, token \<times> (nat, string) page list) DocumentProducer" where
  "failedAfterPage =
    snd (bufferMore scriptedFetch (snd (bufferMore scriptedFetch (freshProducer
      [((None, ResItems [7, 8], 3), TString ''t1''),
       ((Some ''boom'', ResUndefined, 1), TString ''t1'')]))))"

definition exhaustedProducer ::
  "(nat, string, nat, token \<times> (nat, string) page list) DocumentProducer" where
  "exhaustedProducer = snd (bufferMore scriptedFetch (freshProducer []))"

section \<open>Concrete states\<close>

lemmas run_defs =
  freshProducer_def newDocumentProducer_def scriptedFetch_def wholeRange_def
  bufferMore_def updateStates_def Let_def

lemma failedProducer_state:
  "failedProducer =
    \<lparr>targetPartitionKeyRange = wholeRange, itemsBuffer = [], allFetched = False,
     err = Some ''boom'', previousContinuationToken = TUndefined,
     continuationToken = TUndefined, respHeaders = 0,
     internalExecutionContext = (TUndefined, []), fetchCalls = 1\<rparr>"
  by (simp add: failedProducer_def run_defs)

lemma failedAfterPage_state:
  "failedAfterPage =
    \<lparr>targetPartitionKeyRange = wholeRange, itemsBuffer = [7, 8], allFetched = False,
     err = Some ''boom'', previousContinuationToken = TUndefined,
     continuationToken = TString ''t1'', respHeaders = 0,
     internalExecutionContext = (TString ''t1'', []), fetchCalls = 2\<rparr>"
  by (simp add: failedAfterPage_def run_defs)

lemma exhaustedProducer_state:
  "exhaustedProducer =
    \<lparr>targetPartitionKeyRange = wholeRange, itemsBuffer = [], allFetched = True,
     err = None, previousContinuationToken = TUndefined,
     continuationToken = TUndefined, respHeaders = 0,
     internalExecutionContext = (TUndefined, []), fetchCalls = 1\<rparr>"
  by (simp add: exhaustedProducer_def run_defs)

lemma scriptedFetch_headers:
  "getInitialHeader scriptedFetch = 0"
  "mergeHeaders scriptedFetch a (Some b) = a + b"
  by (simp_all add: scriptedFetch_def)

section \<open>The producer\<close>

lemma bufferMore_sticky: "err p = Some E \<Longrightarrow> bufferMore d p = ((Some E, ResUndefined, None), p)"
  by (simp add: bufferMore_def)

lemma nextItem_sticky: "err p = Some E \<Longrightarrow> nextItem d p = Some (Callback (Some E) None None, p)"
  by (simp add: nextItem_def)

lemma current_nonempty:
  "itemsBuffer p = x # xs \<Longrightarrow>
   current d p = Some ((None, Some x, Some (respHeaders p)), p\<lparr>respHeaders := getInitialHeader d\<rparr>)"
  by (subst current.simps) (simp add: getAndResetActiveResponseHeaders_def)

lemma current_exhausted:
  "itemsBuffer p = [] \<Longrightarrow> allFetched p \<Longrightarrow>
   current d p = Some ((None, None, Some (respHeaders p)), p\<lparr>respHeaders := getInitialHeader d\<rparr>)"
  by (subst current.simps) (simp add: getAndResetActiveResponseHeaders_def)

lemma current_refill:
  "itemsBuffer p = [] \<Longrightarrow> \<not> allFetched p \<Longrightarrow> bufferMore d p = ((None, ResItems xs, h), p') \<Longrightarrow>
   current d p = current d (p'\<lparr>respHeaders := mergeHeaders d (respHeaders p') h\<rparr>)"
  by (subst current.simps) simp

lemma current_sticky_refill:
  "err p = Some E \<Longrightarrow> itemsBuffer p = [] \<Longrightarrow> \<not> allFetched p \<Longrightarrow>
   current d p = Some ((Some E, None, None), p)"
  by (subst current.simps) (simp add: bufferMore_sticky)

lemma current_sticky_no_fetch:
  assumes e: "err p = Some E"
  shows "\<exists>r p'. current d p = Some (r, p') \<and> fetchCalls p' = fetchCalls p \<and>
     internalExecutionContext p' = internalExecutionContext p \<and> err p' = Some E"
proof (cases "itemsBuffer p")
  case Nil
  with e show ?thesis
    by (cases "allFetched p") (simp_all add: current_exhausted current_sticky_refill)
next
  case (Cons x xs)
  with e show ?thesis by (simp add: current_nonempty)
qed

lemma bufferMore_failure_sets_err:
  "err p = None \<Longrightarrow> fetchMore d (internalExecutionContext p) = ((Some E, r, h), c) \<Longrightarrow>
   fst (bufferMore d p) = (Some E, ResUndefined, Some h) \<and> err (snd (bufferMore d p)) = Some E"
  by (simp add: bufferMore_def updateStates_def Let_def)

text \<open>
  C1, as the code has it.  Once \<open>err\<close> holds an error \<open>E\<close>: \<open>bufferMore\<close> and \<open>nextItem\<close> hand
  exactly \<open>E\<close> to their callback and leave the producer as it is, whatever the buffer
  holds; \<open>current\<close> hands \<open>E\<close> to its callback when the buffer is empty and the producer
  is not exhausted; and \<open>current\<close> always invokes its callback without a call of the fetch
  layer, the execution context and the stored error staying as they are.
\<close>

theorem sticky_error_short_circuits:
  "err p = Some E \<Longrightarrow>
     bufferMore d p = ((Some E, ResUndefined, None), p) \<and>
     nextItem d p = Some (Callback (Some E) None None, p) \<and>
     (itemsBuffer p = [] \<and> \<not> allFetched p \<longrightarrow> current d p = Some ((Some E, None, None), p)) \<and>
     (\<exists>r p'. current d p = Some (r, p') \<and> fetchCalls p' = fetchCalls p \<and>
        internalExecutionContext p' = internalExecutionContext p \<and> err p' = Some E)"
  using current_sticky_no_fetch [of p E d]
  by (auto simp: bufferMore_sticky nextItem_sticky current_sticky_refill)

theorem sticky_error_short_circuits_witness:
  "err failedProducer = Some ''boom'' \<and>
   bufferMore scriptedFetch failedProducer = ((Some ''boom'', ResUndefined, None), failedProducer) \<and>
   nextItem scriptedFetch failedProducer = Some (Callback (Some ''boom'') None None, failedProducer) \<and>
   current scriptedFetch failedProducer = Some ((Some ''boom'', None, None), failedProducer)"
proof -
  have e: "err failedProducer = Some ''boom''"
    by (simp add: failedProducer_state)
  have b: "itemsBuffer failedProducer = [] \<and> \<not> allFetched failedProducer"
    by (simp add: failedProducer_state)
  from sticky_error_short_circuits [OF e, of scriptedFetch] e b show ?thesis
    by blast
qed

text \<open>
  C1 as stated fails for \<open>current\<close>: after a page \<open>[7, 8]\<close> was buffered and the next fetch
  failed with \<open>boom\<close>, \<open>current\<close> hands the buffered head \<open>7\<close> to its callback, with no error.
\<close>

theorem current_serves_buffer_after_error:
  "err failedAfterPage = Some ''boom'' \<and>
   map_option fst (current scriptedFetch failedAfterPage) = Some (None, Some 7, Some 0)"
  by (simp add: failedAfterPage_state current_nonempty)

lemma bufferMore_success_buffer:
  "bufferMore d p = ((None, resources, headers), p') \<Longrightarrow>
   itemsBuffer p' = itemsBuffer p @ appended resources"
  by (auto simp: bufferMore_def updateStates_def appended_def Let_def
      split: option.splits prod.splits resources.splits if_splits)

lemma refills_buffer:
  "refills d n p = Some (xs, q) \<Longrightarrow> itemsBuffer q = itemsBuffer p @ xs"
proof (induction n arbitrary: p xs)
  case 0
  then show ?case by simp
next
  case (Suc n)
  then show ?case
    by (auto split: prod.splits option.splits dest!: bufferMore_success_buffer)
qed

lemma consumeBufferedItems_drains:
  "fst (consumeBufferedItems d q) = itemsBuffer q \<and> itemsBuffer (snd (consumeBufferedItems d q)) = []"
  by (simp add: consumeBufferedItems_def updateStates_def Let_def)

text \<open>
  C3.  When \<open>n\<close> successful calls of \<open>bufferMore\<close> on a producer with an empty buffer were
  handed the items \<open>xs\<close> (page after page, in order), one call of \<open>consumeBufferedItems\<close>
  returns exactly \<open>xs\<close> and leaves the buffer empty.
\<close>

theorem consumeBufferedItems_returns_refilled_items:
  "itemsBuffer p = [] \<Longrightarrow> refills d n p = Some (xs, q) \<Longrightarrow>
   fst (consumeBufferedItems d q) = xs \<and> itemsBuffer (snd (consumeBufferedItems d q)) = []"
  using refills_buffer [of d n p xs q] by (simp add: consumeBufferedItems_drains)

theorem consumeBufferedItems_returns_refilled_items_witness:
  "itemsBuffer (freshProducer [((None, ResItems [1, 2], 3), TString ''t1''),
                               ((None, ResItems [3], 4), TString ''t2'')]) = [] \<and>
   map_option (\<lambda>(xs, q). (xs, fst (consumeBufferedItems scriptedFetch q),
                           itemsBuffer (snd (consumeBufferedItems scriptedFetch q))))
     (refills scriptedFetch 2 (freshProducer [((None, ResItems [1, 2], 3), TString ''t1''),
                                              ((None, ResItems [3], 4), TString ''t2'')]))
   = Some ([1, 2, 3], [1, 2, 3], [])"
proof -
  let ?p = "freshProducer [((None, ResItems [1, 2], 3), TString ''t1''),
                           ((None, ResItems [3], 4), TString ''t2'')]"
  have e: "itemsBuffer ?p = []"
    by (simp add: run_defs)
  obtain q where r: "refills scriptedFetch 2 ?p = Some ([1, 2, 3], q)"
    by (simp add: numeral_2_eq_2 run_defs appended_def)
  from consumeBufferedItems_returns_refilled_items [OF e r] e r show ?thesis
    by simp
qed

text \<open>
  C8.  A call of \<open>_updateStates\<close> without an error: when the execution context's
  \<open>continuation\<close> equals the producer's \<open>continuationToken\<close>, that token and
  \<open>previousContinuationToken\<close> stay as they are; when it differs,
  \<open>previousContinuationToken\<close> becomes the old \<open>continuationToken\<close> and \<open>continuationToken\<close>
  becomes the context's value.
\<close>

theorem updateStates_continuation_bookkeeping:
  "updateStates d None allFetched' p = p' \<Longrightarrow>
   (continuation d (internalExecutionContext p) = continuationToken p \<longrightarrow>
      continuationToken p' = continuationToken p \<and>
      previousContinuationToken p' = previousContinuationToken p) \<and>
   (continuation d (internalExecutionContext p) \<noteq> continuationToken p \<longrightarrow>
      previousContinuationToken p' = continuationToken p \<and>
      continuationToken p' = continuation d (internalExecutionContext p))"
  by (auto simp: updateStates_def Let_def)

theorem updateStates_continuation_bookkeeping_witness:
  "continuation scriptedFetch (internalExecutionContext failedAfterPage) = continuationToken failedAfterPage \<and>
   continuationToken (updateStates scriptedFetch None False failedAfterPage) = TString ''t1'' \<and>
   previousContinuationToken (updateStates scriptedFetch None False failedAfterPage) = TUndefined \<and>
   continuation scriptedFetch (internalExecutionContext (failedAfterPage\<lparr>internalExecutionContext := (TString ''t2'', [])\<rparr>))
     \<noteq> continuationToken (failedAfterPage\<lparr>internalExecutionContext := (TString ''t2'', [])\<rparr>) \<and>
   previousContinuationToken (updateStates scriptedFetch None False
       (failedAfterPage\<lparr>internalExecutionContext := (TString ''t2'', [])\<rparr>)) = TString ''t1'' \<and>
   continuationToken (updateStates scriptedFetch None False
       (failedAfterPage\<lparr>internalExecutionContext := (TString ''t2'', [])\<rparr>)) = TString ''t2''"
proof -
  have same: "continuation scriptedFetch (internalExecutionContext failedAfterPage) = continuationToken failedAfterPage"
    by (simp add: failedAfterPage_state scriptedFetch_def)
  have other: "continuation scriptedFetch (internalExecutionContext (failedAfterPage\<lparr>internalExecutionContext := (TString ''t2'', [])\<rparr>))
     \<noteq> continuationToken (failedAfterPage\<lparr>internalExecutionContext := (TString ''t2'', [])\<rparr>)"
    by (simp add: failedAfterPage_state scriptedFetch_def)
  have t: "continuationToken failedAfterPage = TString ''t1''"
      "previousContinuationToken failedAfterPage = TUndefined"
    by (simp_all add: failedAfterPage_state)
  from updateStates_continuation_bookkeeping [of scriptedFetch False failedAfterPage, OF refl]
    updateStates_continuation_bookkeeping [of scriptedFetch False
      "failedAfterPage\<lparr>internalExecutionContext := (TString ''t2'', [])\<rparr>", OF refl]
    same other t
  show ?thesis
    by (simp add: scriptedFetch_def)
qed

text \<open>
  C10.  With an empty buffer, no stored error and \<open>allFetched\<close> set, \<open>nextItem\<close> invokes its
  callback with no error and no item (and the headers accumulated so far); the
  assertion holds, both sides being \<open>undefined\<close>, so nothing is thrown; the buffer stays
  empty.
\<close>

theorem nextItem_on_exhausted_producer:
  "itemsBuffer p = [] \<Longrightarrow> err p = None \<Longrightarrow> allFetched p \<Longrightarrow>
   nextItem d p = Some (Callback None None (Some (respHeaders p)), p\<lparr>respHeaders := getInitialHeader d\<rparr>)
   \<and> itemsBuffer (p\<lparr>respHeaders := getInitialHeader d\<rparr>) = []
   \<and> shift (itemsBuffer p) = (None, [])"
  by (simp add: nextItem_def current_exhausted shift_def)

theorem nextItem_on_exhausted_producer_witness:
  "itemsBuffer exhaustedProducer = [] \<and> err exhaustedProducer = None \<and> allFetched exhaustedProducer \<and>
   nextItem scriptedFetch exhaustedProducer = Some (Callback None None (Some 0), exhaustedProducer)"
proof -
  have h: "itemsBuffer exhaustedProducer = []" "err exhaustedProducer = None" "allFetched exhaustedProducer"
    by (simp_all add: exhaustedProducer_state)
  have s: "exhaustedProducer\<lparr>respHeaders := getInitialHeader scriptedFetch\<rparr> = exhaustedProducer"
      "respHeaders exhaustedProducer = 0"
    by (simp_all add: exhaustedProducer_state scriptedFetch_def)
  from nextItem_on_exhausted_producer [OF h, of scriptedFetch] h s show ?thesis
    by simp
qed

lemma current_head_aux:
  "current d p = Some y \<Longrightarrow>
   fst (fst y) = None \<longrightarrow> fst (shift (itemsBuffer (snd y))) = fst (snd (fst y))"
proof (induction d p y rule: current.raw_induct [rotated 1, consumes 1])
  case (1 cur d p y)
  show ?case
  proof (cases "itemsBuffer p")
    case (Cons x xs)
    with 1(2) show ?thesis
      by (auto simp: getAndResetActiveResponseHeaders_def shift_def)
  next
    case Nil
    show ?thesis
    proof (cases "allFetched p")
      case True
      with Nil 1(2) show ?thesis
        by (auto simp: getAndResetActiveResponseHeaders_def shift_def)
    next
      case False
      obtain e r h p' where b: "bufferMore d p = ((e, r, h), p')"
        by (metis prod_cases3 surj_pair)
      show ?thesis
      proof (cases e)
        case (Some a)
        with Nil False b 1(2) show ?thesis by auto
      next
        case None
        show ?thesis
        proof (cases "r = ResUndefined")
          case True
          from b None True have "itemsBuffer p' = itemsBuffer p"
            by (auto dest: bufferMore_success_buffer simp: appended_def)
          with Nil False b None True 1(2) show ?thesis
            by (auto simp: shift_def)
        next
          case False
          with Nil \<open>\<not> allFetched p\<close> b None 1(2)
          have step: "cur d (p'\<lparr>respHeaders := mergeHeaders d (respHeaders p') h\<rparr>) = Some y"
            by (cases r) auto
          show ?thesis using "1.IH" [OF step] .
        qed
      qed
    qed
  qed
qed

lemma current_item_is_head:
  "current d p = Some ((None, item, headers), q) \<Longrightarrow> fst (shift (itemsBuffer q)) = item"
  using current_head_aux [of d p "((None, item, headers), q)"] by simp

lemma nextItem_never_throws: "nextItem d p \<noteq> Some (Throws e, p')"
  by (auto simp: nextItem_def split: option.splits prod.splits dest: current_item_is_head)

text \<open>
  C4.  When \<open>nextItem\<close> hands an item \<open>x\<close> to its callback without an error, \<open>x\<close> is the item
  its call of \<open>current\<close> observed, the buffer \<open>current\<close> left has \<open>x\<close> at its head, and the
  producer afterwards differs only in that this head is gone: the rest of the buffer is
  as it was, in the same order.  If the buffer was not empty to begin with, \<open>x\<close> is its
  head and the rest is what remains.
\<close>

theorem nextItem_removes_observed_head:
  "nextItem d p = Some (Callback None (Some x) headers, p') \<Longrightarrow>
   \<exists>q. current d p = Some ((None, Some x, headers), q) \<and>
       itemsBuffer q = x # itemsBuffer p' \<and>
       p' = q\<lparr>itemsBuffer := tl (itemsBuffer q)\<rparr> \<and>
       (\<forall>y ys. itemsBuffer p = y # ys \<longrightarrow> x = y \<and> itemsBuffer p' = ys)"
proof -
  assume n: "nextItem d p = Some (Callback None (Some x) headers, p')"
  then have noerr: "err p = None"
    by (auto simp: nextItem_def split: option.splits)
  from n noerr obtain q where c: "current d p = Some ((None, Some x, headers), q)"
    and s: "shift (itemsBuffer q) = (Some x, itemsBuffer p')"
    and p': "p' = q\<lparr>itemsBuffer := itemsBuffer p'\<rparr>"
    by (auto simp: nextItem_def Let_def split: option.splits prod.splits if_splits)
  from s have b: "itemsBuffer q = x # itemsBuffer p'"
    by (auto simp: shift_def split: list.splits)
  have "x = y \<and> itemsBuffer p' = ys" if "itemsBuffer p = y # ys" for y ys
    using that c b current_nonempty [OF that, of d] by auto
  with c b p' show ?thesis
    by (metis list.sel(3))
qed

theorem nextItem_removes_observed_head_witness:
  "map_option fst (nextItem scriptedFetch (freshProducer [((None, ResItems [7, 8], 3), TString ''t1'')]))
     = Some (Callback None (Some 7) (Some 3)) \<and>
   map_option (\<lambda>r. (fst r, itemsBuffer (snd r)))
     (current scriptedFetch (freshProducer [((None, ResItems [7, 8], 3), TString ''t1'')]))
     = Some ((None, Some 7, Some 3), [7, 8]) \<and>
   map_option (\<lambda>r. itemsBuffer (snd r))
     (nextItem scriptedFetch (freshProducer [((None, ResItems [7, 8], 3), TString ''t1'')]))
     = Some [8]"
proof -
  let ?p = "freshProducer [((None, ResItems [7, 8], 3), TString ''t1'')]"
  have b: "bufferMore scriptedFetch ?p =
      ((None, ResItems [7, 8], Some 3),
       \<lparr>targetPartitionKeyRange = wholeRange, itemsBuffer = [7, 8], allFetched = False,
        err = None, previousContinuationToken = TUndefined,
        continuationToken = TString ''t1'', respHeaders = 0,
        internalExecutionContext = (TString ''t1'', []), fetchCalls = 1\<rparr>)"
    by (simp add: run_defs)
  have e: "itemsBuffer ?p = []" "\<not> allFetched ?p" "err ?p = None"
    by (simp_all add: run_defs)
  have c: "current scriptedFetch ?p = Some ((None, Some 7, Some 3),
       \<lparr>targetPartitionKeyRange = wholeRange, itemsBuffer = [7, 8], allFetched = False,
        err = None, previousContinuationToken = TUndefined,
        continuationToken = TString ''t1'', respHeaders = 0,
        internalExecutionContext = (TString ''t1'', []), fetchCalls = 1\<rparr>)"
    by (simp add: current_refill [OF e(1) e(2) b] current_nonempty scriptedFetch_headers)
  have n: "nextItem scriptedFetch ?p = Some (Callback None (Some 7) (Some 3),
       \<lparr>targetPartitionKeyRange = wholeRange, itemsBuffer = [8], allFetched = False,
        err = None, previousContinuationToken = TUndefined,
        continuationToken = TString ''t1'', respHeaders = 0,
        internalExecutionContext = (TString ''t1'', []), fetchCalls = 1\<rparr>)"
    by (simp add: nextItem_def e(3) c shift_def)
  from nextItem_removes_observed_head [OF n] n c show ?thesis
    by simp
qed


section \<open>The comparator\<close>

lemma typeof_not_empty: "js_not_string (typeof v) = False"
  by (cases v) (simp_all add: js_not_string_def)

lemma table_has_no_false: "has_property ''false'' typeOrdComparator_entries = False"
  by (simp add: has_property_def typeOrdComparator_entries_def)

lemma not_item_is_false: "property_key_of_bool (js_not_string ''item'') = ''false''"
  by (simp add: property_key_of_bool_def js_not_string_def)

lemma not_type_is_false: "property_key_of_bool (js_not_string (typeof v)) = ''false''"
  by (simp add: typeof_not_empty property_key_of_bool_def)

lemma getType_unfold:
  "getType ob = (if has_property ''false'' ob then Inr ''NoValue''
                 else Inr (typeof (get_property ob ''item'')))"
  by (simp add: getType_def not_item_is_false not_type_is_false table_has_no_false Let_def)

lemma getType_no_throw: "getType ob \<noteq> Inl e"
  by (simp add: getType_unfold)

lemma typeof_not_NoValue: "typeof v \<noteq> ''NoValue''"
  by (cases v) simp_all

lemma ord_of_simps:
  "ord_of ''NoValue'' = Some 0" "ord_of ''undefined'' = Some 1" "ord_of ''boolean'' = Some 2"
  "ord_of ''number'' = Some 4" "ord_of ''string'' = Some 5" "ord_of ''object'' = None"
  by (simp_all add: ord_of_def typeOrdComparator_def typeOrdComparator_entries_def)

lemma ord_of_cases:
  "ord_of t = Some r \<Longrightarrow>
     (t = ''NoValue'' \<and> r = 0) \<or> (t = ''undefined'' \<and> r = 1) \<or> (t = ''boolean'' \<and> r = 2) \<or>
     (t = ''number'' \<and> r = 4) \<or> (t = ''string'' \<and> r = 5)"
  by (simp add: ord_of_def typeOrdComparator_def typeOrdComparator_entries_def split: if_splits)

lemma ord_of_inj: "ord_of t1 = Some r \<Longrightarrow> ord_of t2 = Some r \<Longrightarrow> t1 = t2"
  by (drule ord_of_cases)+ auto

lemma compareValue_ranks:
  "ord_of type1 = Some r1 \<Longrightarrow> ord_of type2 = Some r2 \<Longrightarrow> r1 \<noteq> r2 \<Longrightarrow>
     compareValue item1 type1 item2 type2 = Inr (r1 - r2)"
  by (auto simp: compareValue_def ord_of_def Let_def split: option.splits)

lemma compareValue_missing:
  "t = ''undefined'' \<or> t = ''NoValue'' \<Longrightarrow> compareValue item1 t item2 t = Inr 0"
  by (auto simp: compareValue_def ord_of_def typeOrdComparator_def typeOrdComparator_entries_def Let_def)

lemma compareValue_not_Error: "compareValue item1 type1 item2 type2 \<noteq> Inl (Error m)"
proof -
  have c: "compFunc a b \<noteq> Inl (Error m)" for a b
    by (cases "(a, b)" rule: compFunc.cases) simp_all
  have f: "compFunc_of e = Some f \<Longrightarrow> typeOrdComparator t = Some e \<Longrightarrow> f = compFunc" for e f t
    by (auto simp: typeOrdComparator_def typeOrdComparator_entries_def split: if_splits)
  show ?thesis
    by (auto simp: compareValue_def Let_def c dest: f split: option.splits)
qed

lemma compareOrderByItem_not_Error: "compareOrderByItem x y \<noteq> Inl (Error m)"
  by (simp add: compareOrderByItem_def getType_unfold compareValue_not_Error)

text \<open>
  The comparison functions of the table are only ever applied to two values of the
  same primitive type, so the case left out of \<open>compFunc\<close> is never reached from
  \<open>compareOrderByItem\<close>.
\<close>

lemma compareValue_typeof_modelled:
  "compareValue a (typeof a) b (typeof b) \<noteq> Inl (Unmodelled m)"
  by (cases a; cases b)
     (simp_all add: compareValue_def typeOrdComparator_def typeOrdComparator_entries_def
        ord_of_def Let_def)

lemma compareValue_NoValue_modelled:
  "compareValue a ''NoValue'' b t \<noteq> Inl (Unmodelled m)"
  "compareValue a t b ''NoValue'' \<noteq> Inl (Unmodelled m)"
  by (auto simp: compareValue_def typeOrdComparator_def typeOrdComparator_entries_def
        ord_of_def Let_def split: option.splits if_splits)

lemma compareOrderByItem_modelled: "compareOrderByItem x y \<noteq> Inl (Unmodelled m)"
  by (simp add: compareOrderByItem_def getType_unfold compareValue_typeof_modelled
      compareValue_NoValue_modelled)

lemma compareValue_zero_same_type:
  "compareValue item1 type1 item2 type2 = Inr 0 \<Longrightarrow> type1 = type2"
  by (auto simp: compareValue_def Let_def ord_of_def split: option.splits if_splits
      intro: ord_of_inj [unfolded ord_of_def])

lemma compareOrderByItem_zero_same_type:
  "compareOrderByItem x y = Inr 0 \<Longrightarrow> getType x = getType y"
  by (auto simp: compareOrderByItem_def split: sum.splits dest: compareValue_zero_same_type)

text \<open>
  Entries whose \<open>item\<close> has the kind \<open>undefined\<close> (or that are classified \<open>NoValue\<close>) on both
  sides compare equal whatever else they hold, and the loop of \<open>compare\<close> moves on to the
  next position.
\<close>

lemma compareItems_skips_missing:
  "getType x = Inr t \<Longrightarrow> getType y = Inr t \<Longrightarrow> t = ''undefined'' \<or> t = ''NoValue'' \<Longrightarrow>
   compareOrderByItem x y = Inr 0 \<and>
   compareItems sortOrder (x # res1) (y # res2) = compareItems (tl sortOrder) res1 res2"
  by (simp add: compareOrderByItem_def compareValue_missing)

lemma validateTypes_ok:
  "length res1 = length so \<Longrightarrow> length res2 = length so \<Longrightarrow>
   list_all2 (\<lambda>x y. getType x = getType y) res1 res2 \<Longrightarrow> validateTypes so res1 res2 = Inr ()"
proof (induction so res1 res2 rule: validateTypes.induct)
  case (2 s sortOrder x res1 y res2)
  then show ?case
    by (auto simp: throwIf_def getType_no_throw split: sum.splits)
qed simp_all

lemma validateTypes_mismatch:
  "length res1 = length so \<Longrightarrow> length res2 = length so \<Longrightarrow>
   \<not> list_all2 (\<lambda>x y. getType x = getType y) res1 res2 \<Longrightarrow>
   \<exists>m. validateTypes so res1 res2 = Inl (Error m)"
proof (induction so res1 res2 rule: validateTypes.induct)
  case (2 s sortOrder x res1 y res2)
  then show ?case
    by (auto simp: throwIf_def getType_no_throw split: sum.splits)
qed simp_all

lemma validateOrderByItems_rejects:
  assumes "length res1 \<noteq> length res2 \<or>
     (\<exists>i. i < length res1 \<and> i < length res2 \<and> getType (res1 ! i) \<noteq> getType (res2 ! i))"
  shows "\<exists>m. validateOrderByItems so res1 res2 = Inl (Error m)"
proof (cases "length res1 = length res2 \<and> length res1 = length so")
  case False
  then show ?thesis
    by (auto simp: validateOrderByItems_def throwIf_def)
next
  case True
  with assms have "\<not> list_all2 (\<lambda>x y. getType x = getType y) res1 res2"
    by (auto simp: list_all2_conv_all_nth)
  with True have "\<exists>m. validateTypes so res1 res2 = Inl (Error m)"
    by (simp add: validateTypes_mismatch)
  with True show ?thesis
    by (simp add: validateOrderByItems_def throwIf_def)
qed

lemma validateOrderByItems_accepts:
  assumes "length res1 = length res2" "length res1 = length so"
    "\<forall>i < length so. getType (res1 ! i) = getType (res2 ! i)"
  shows "validateOrderByItems so res1 res2 = Inr ()"
proof -
  from assms have "list_all2 (\<lambda>x y. getType x = getType y) res1 res2"
    by (simp add: list_all2_conv_all_nth)
  with assms show ?thesis
    by (simp add: validateOrderByItems_def throwIf_def validateTypes_ok)
qed

lemma compareItems_all_zero:
  "list_all2 (\<lambda>x y. compareOrderByItem x y = Inr 0) res1 res2 \<Longrightarrow>
   compareItems so res1 res2 = Inr None"
proof (induction so res1 res2 rule: compareItems.induct)
  case (3 sortOrder x res1 y res2)
  then show ?case by simp
qed simp_all

lemma compareItems_not_Error: "compareItems so res1 res2 \<noteq> Inl (Error m)"
proof (induction so res1 res2 rule: compareItems.induct)
  case (3 sortOrder x res1 y res2)
  then show ?case
    by (auto simp: compareOrderByItem_not_Error split: sum.splits)
qed simp_all

lemma compare_heads:
  "itemsBuffer p1 = r1 # rest1 \<Longrightarrow> itemsBuffer p2 = r2 # rest2 \<Longrightarrow>
   compare so p1 p2 =
     (case validateOrderByItems so (orderByItems r1) (orderByItems r2) of
        Inl e \<Rightarrow> Inl e
      | Inr u \<Rightarrow>
          (case compareItems so (orderByItems r1) (orderByItems r2) of
             Inl e \<Rightarrow> Inl e
           | Inr (Some r) \<Rightarrow> Inr r
           | Inr None \<Rightarrow> Inr (targetPartitionKeyRangeComparator p1 p2)))"
  by (simp add: compare_def peekBufferedItems_def getOrderByItems_def Let_def)

lemmas compare_eval =
  compare_def peekBufferedItems_def getOrderByItems_def validateOrderByItems_def throwIf_def
  getType_unfold has_property_def get_property_def compareOrderByItem_def compareValue_def
  typeOrdComparator_def typeOrdComparator_entries_def ord_of_def
  targetPartitionKeyRangeComparator_def getTargetParitionKeyRange_def bufferedProducer_def Let_def

text \<open>
  C2.  When the head projections of two producers have one entry per position of
  \<open>sortOrder\<close> and compare equal at every position, \<open>compare\<close> returns what the
  \<open>minInclusive\<close> comparison returns: \<open>0\<close> for equal lower bounds, \<open>-1\<close> when the first
  producer's lower bound is the smaller one, \<open>1\<close> otherwise.  \<open>sortOrder\<close> is arbitrary, so
  the directions have no part in it.
\<close>

theorem compare_ties_broken_by_minInclusive:
  "itemsBuffer p1 = r1 # rest1 \<Longrightarrow> itemsBuffer p2 = r2 # rest2 \<Longrightarrow>
   length (orderByItems r1) = length sortOrder \<Longrightarrow>
   length (orderByItems r2) = length sortOrder \<Longrightarrow>
   \<forall>i < length sortOrder.
      compareOrderByItem (orderByItems r1 ! i) (orderByItems r2 ! i) = Inr 0 \<Longrightarrow>
   compare sortOrder p1 p2 =
     Inr (if minInclusive (targetPartitionKeyRange p1) = minInclusive (targetPartitionKeyRange p2) then 0
          else if minInclusive (targetPartitionKeyRange p1) < minInclusive (targetPartitionKeyRange p2)
          then - 1 else 1)"
proof -
  assume b1: "itemsBuffer p1 = r1 # rest1" and b2: "itemsBuffer p2 = r2 # rest2"
    and l1: "length (orderByItems r1) = length sortOrder"
    and l2: "length (orderByItems r2) = length sortOrder"
    and z: "\<forall>i < length sortOrder.
      compareOrderByItem (orderByItems r1 ! i) (orderByItems r2 ! i) = Inr 0"
  have ties: "list_all2 (\<lambda>x y. compareOrderByItem x y = Inr 0) (orderByItems r1) (orderByItems r2)"
    using l1 l2 z by (simp add: list_all2_conv_all_nth)
  then have kinds: "list_all2 (\<lambda>x y. getType x = getType y) (orderByItems r1) (orderByItems r2)"
    by (rule list_all2_mono) (rule compareOrderByItem_zero_same_type)
  have v: "validateOrderByItems sortOrder (orderByItems r1) (orderByItems r2) = Inr ()"
    using l1 l2 kinds by (simp add: validateOrderByItems_def throwIf_def validateTypes_ok)
  have c: "compareItems sortOrder (orderByItems r1) (orderByItems r2) = Inr None"
    using ties by (rule compareItems_all_zero)
  show ?thesis
    using v c
    by (auto simp: compare_heads [OF b1 b2] targetPartitionKeyRangeComparator_def
        getTargetParitionKeyRange_def Let_def)
qed

theorem compare_ties_broken_by_minInclusive_witness:
  "compare [''Descending''] (bufferedProducer ''0000'' [[(''item'', JNum 10)]])
                            (bufferedProducer ''3FFF'' [[(''item'', JNum 10)]]) = Inr (- 1)
   \<and> compare [''Ascending''] (bufferedProducer ''3FFF'' [[(''item'', JStr ''x'')]])
                             (bufferedProducer ''0000'' [[(''item'', JStr ''x'')]]) = Inr 1"
  using compare_ties_broken_by_minInclusive
          [of "bufferedProducer ''0000'' [[(''item'', JNum 10)]]"
               "\<lparr>orderByItems = [[(''item'', JNum 10)]], payload = ()\<rparr>" "[]"
               "bufferedProducer ''3FFF'' [[(''item'', JNum 10)]]"
               "\<lparr>orderByItems = [[(''item'', JNum 10)]], payload = ()\<rparr>" "[]"
               "[''Descending'']"]
        compare_ties_broken_by_minInclusive
          [of "bufferedProducer ''3FFF'' [[(''item'', JStr ''x'')]]"
               "\<lparr>orderByItems = [[(''item'', JStr ''x'')]], payload = ()\<rparr>" "[]"
               "bufferedProducer ''0000'' [[(''item'', JStr ''x'')]]"
               "\<lparr>orderByItems = [[(''item'', JStr ''x'')]], payload = ()\<rparr>" "[]"
               "[''Ascending'']"]
  by (simp add: bufferedProducer_def compareOrderByItem_def getType_unfold has_property_def
      get_property_def compareValue_def typeOrdComparator_def typeOrdComparator_entries_def
      ord_of_def Let_def)

text \<open>
  C5, as the code has it.  For two producers with a buffered head each: when the two
  projections differ in length, or in the kind \<open>getType\<close> gives at some position they
  both have, \<open>validateOrderByItems\<close> raises an \<open>Error\<close> and that error is the result of
  \<open>compare\<close>, the comparison loop not being entered.  Conversely, when the projections
  have the same length, that length is the length of \<open>sortOrder\<close>, and the kinds agree
  at every position, validation passes and \<open>compare\<close> raises no validation error.
\<close>

theorem compare_validation_errors:
  "itemsBuffer p1 = r1 # rest1 \<Longrightarrow> itemsBuffer p2 = r2 # rest2 \<Longrightarrow>
   ((length (orderByItems r1) \<noteq> length (orderByItems r2) \<or>
     (\<exists>i. i < length (orderByItems r1) \<and> i < length (orderByItems r2) \<and>
          getType (orderByItems r1 ! i) \<noteq> getType (orderByItems r2 ! i)))
    \<longrightarrow> (\<exists>m. validateOrderByItems sortOrder (orderByItems r1) (orderByItems r2) = Inl (Error m) \<and>
             compare sortOrder p1 p2 = Inl (Error m)))
   \<and>
   ((length (orderByItems r1) = length (orderByItems r2) \<and>
     length (orderByItems r1) = length sortOrder \<and>
     (\<forall>i < length sortOrder. getType (orderByItems r1 ! i) = getType (orderByItems r2 ! i)))
    \<longrightarrow> validateOrderByItems sortOrder (orderByItems r1) (orderByItems r2) = Inr () \<and>
        (\<forall>m. compare sortOrder p1 p2 \<noteq> Inl (Error m)))"
proof -
  assume b1: "itemsBuffer p1 = r1 # rest1" and b2: "itemsBuffer p2 = r2 # rest2"
  note c = compare_heads [OF b1 b2, of sortOrder]
  have rejects: "\<exists>m. validateOrderByItems sortOrder (orderByItems r1) (orderByItems r2) = Inl (Error m) \<and>
             compare sortOrder p1 p2 = Inl (Error m)"
    if "length (orderByItems r1) \<noteq> length (orderByItems r2) \<or>
     (\<exists>i. i < length (orderByItems r1) \<and> i < length (orderByItems r2) \<and>
          getType (orderByItems r1 ! i) \<noteq> getType (orderByItems r2 ! i))"
    using validateOrderByItems_rejects [OF that, of sortOrder] by (auto simp: c)
  have accepts: "validateOrderByItems sortOrder (orderByItems r1) (orderByItems r2) = Inr () \<and>
        (\<forall>m. compare sortOrder p1 p2 \<noteq> Inl (Error m))"
    if "length (orderByItems r1) = length (orderByItems r2) \<and>
     length (orderByItems r1) = length sortOrder \<and>
     (\<forall>i < length sortOrder. getType (orderByItems r1 ! i) = getType (orderByItems r2 ! i))"
  proof -
    from that have v: "validateOrderByItems sortOrder (orderByItems r1) (orderByItems r2) = Inr ()"
      by (simp add: validateOrderByItems_accepts)
    then show ?thesis
      by (auto simp: c compareItems_not_Error split: sum.splits option.splits)
  qed
  from rejects accepts show ?thesis by blast
qed

theorem compare_validation_errors_witness:
  "compare [''Ascending''] (bufferedProducer ''0000'' [[(''item'', JNum 5)], [(''item'', JNum 6)]])
                           (bufferedProducer ''3FFF'' [[(''item'', JNum 5)]])
     = Inl (Error ''Expected undefined, but got undefined.'') \<and>
   validateOrderByItems [''Ascending''] [[(''item'', JNum 5)]] [[(''item'', JNum 7)]] = Inr () \<and>
   compare [''Ascending''] (bufferedProducer ''0000'' [[(''item'', JNum 5)]])
                           (bufferedProducer ''3FFF'' [[(''item'', JNum 7)]]) = Inr (- 1)"
  using compare_validation_errors
          [of "bufferedProducer ''0000'' [[(''item'', JNum 5)], [(''item'', JNum 6)]]"
              "\<lparr>orderByItems = [[(''item'', JNum 5)], [(''item'', JNum 6)]], payload = ()\<rparr>" "[]"
              "bufferedProducer ''3FFF'' [[(''item'', JNum 5)]]"
              "\<lparr>orderByItems = [[(''item'', JNum 5)]], payload = ()\<rparr>" "[]"
              "[''Ascending'']"]
        compare_validation_errors
          [of "bufferedProducer ''0000'' [[(''item'', JNum 5)]]"
              "\<lparr>orderByItems = [[(''item'', JNum 5)]], payload = ()\<rparr>" "[]"
              "bufferedProducer ''3FFF'' [[(''item'', JNum 7)]]"
              "\<lparr>orderByItems = [[(''item'', JNum 7)]], payload = ()\<rparr>" "[]"
              "[''Ascending'']"]
  by (simp add: compare_eval)

text \<open>
  C5 as stated fails in its converse: two projections of the same length and the same
  kinds are rejected by the validation when that length is not the length of
  \<open>sortOrder\<close>.
\<close>

theorem compare_rejects_other_sortOrder_length:
  "compare [] (bufferedProducer ''0000'' [[(''item'', JNum 5)]])
              (bufferedProducer ''3FFF'' [[(''item'', JNum 7)]])
     = Inl (Error ''orderByItems cannot have a different size than sort orders.'')"
  by (simp add: compare_eval)

text \<open>
  C6, as the code has it.  The table ranks \<open>NoValue\<close> 0, \<open>undefined\<close> 1, \<open>boolean\<close> 2,
  \<open>number\<close> 4 and \<open>string\<close> 5.  For two different kinds of the table \<open>compareValue\<close>
  returns the difference of their ranks, which is not zero, whatever the two values
  are; so does \<open>compareOrderByItem\<close> on entries of those kinds.  \<open>compare\<close> does not get
  that far: for heads whose one-key projections have those two kinds the validation
  raises \<open>Expected <kind1>, but got <kind2>.\<close>
\<close>

theorem compareValue_differing_kinds_by_ord:
  "ord_of type1 = Some r1 \<Longrightarrow> ord_of type2 = Some r2 \<Longrightarrow> type1 \<noteq> type2 \<Longrightarrow>
   (ord_of ''NoValue'' = Some 0 \<and> ord_of ''undefined'' = Some 1 \<and> ord_of ''boolean'' = Some 2 \<and>
    ord_of ''number'' = Some 4 \<and> ord_of ''string'' = Some 5) \<and>
   compareValue item1 type1 item2 type2 = Inr (r1 - r2) \<and> r1 - r2 \<noteq> 0 \<and>
   (\<forall>x y. getType x = Inr type1 \<and> getType y = Inr type2 \<longrightarrow>
      compareOrderByItem x y = Inr (r1 - r2) \<and>
      (\<forall>(p1 :: ('b orderByResult, 'e, 'h, 'c) DocumentProducer)
          (p2 :: ('b orderByResult, 'e, 'h, 'c) DocumentProducer) pay1 pay2 rest1 rest2 s.
         itemsBuffer p1 = \<lparr>orderByItems = [x], payload = pay1\<rparr> # rest1 \<and>
         itemsBuffer p2 = \<lparr>orderByItems = [y], payload = pay2\<rparr> # rest2 \<longrightarrow>
         compare [s] p1 p2 = Inl (Error (''Expected '' @ type1 @ '', but got '' @ type2 @ ''.''))))"
proof -
  assume o1: "ord_of type1 = Some r1" and o2: "ord_of type2 = Some r2" and ne: "type1 \<noteq> type2"
  from o1 o2 ne have r: "r1 \<noteq> r2"
    using ord_of_inj by blast
  have cv: "compareValue a type1 b type2 = Inr (r1 - r2)" for a b
    using o1 o2 r by (rule compareValue_ranks)
  have items: "compareOrderByItem x y = Inr (r1 - r2)"
    if "getType x = Inr type1" "getType y = Inr type2" for x y
    using that by (simp add: compareOrderByItem_def cv)
  have cmp: "compare [s] p1 p2 = Inl (Error (''Expected '' @ type1 @ '', but got '' @ type2 @ ''.''))"
    if "getType x = Inr type1" "getType y = Inr type2"
      "itemsBuffer p1 = \<lparr>orderByItems = [x], payload = pay1\<rparr> # rest1"
      "itemsBuffer p2 = \<lparr>orderByItems = [y], payload = pay2\<rparr> # rest2"
    for x y s pay1 pay2 rest1 rest2
      and p1 p2 :: "('b orderByResult, 'e, 'h, 'c) DocumentProducer"
    using that ne
    by (simp add: compare_heads [OF that(3) that(4)] validateOrderByItems_def throwIf_def)
  from r have nz: "r1 - r2 \<noteq> 0"
    by simp
  have ranks: "ord_of ''NoValue'' = Some 0 \<and> ord_of ''undefined'' = Some 1 \<and>
    ord_of ''boolean'' = Some 2 \<and> ord_of ''number'' = Some 4 \<and> ord_of ''string'' = Some 5"
    by (simp add: ord_of_simps)
  from ranks nz cv items cmp show ?thesis
    by blast
qed

theorem compareValue_differing_kinds_by_ord_witness:
  "ord_of ''number'' = Some 4 \<and> ord_of ''string'' = Some 5 \<and>
   compareValue (JNum 5) ''number'' (JStr ''a'') ''string'' = Inr (- 1) \<and>
   compareOrderByItem [(''item'', JNum 5)] [(''item'', JStr ''a'')] = Inr (- 1)"
proof -
  have o: "ord_of ''number'' = Some 4" "ord_of ''string'' = Some 5"
    by (simp_all add: ord_of_simps)
  have ne: "''number'' \<noteq> ''string''"
    by simp
  have g: "getType [(''item'', JNum 5)] = Inr ''number''" "getType [(''item'', JStr ''a'')] = Inr ''string''"
    by (simp_all add: getType_unfold has_property_def get_property_def)
  have "(4::int) - 5 = - 1"
    by simp
  with compareValue_differing_kinds_by_ord [OF o ne, of "JNum 5" "JStr ''a''"] o g show ?thesis
    by metis
qed

text \<open>
  C6 as stated fails in its example: \<open>compare\<close> on the heads \<open>[{item: 5}]\<close> and
  \<open>[{item: "a"}]\<close> under \<open>[Ascending]\<close> does not return a negative number, it throws the
  validation error.
\<close>

theorem compare_number_against_string_rejected:
  "compare [''Ascending''] (bufferedProducer ''0000'' [[(''item'', JNum 5)]])
                            (bufferedProducer ''3FFF'' [[(''item'', JStr ''a'')]])
     = Inl (Error ''Expected number, but got string.'')"
  by (simp add: compare_eval)

text \<open>
  C7 at two heads whose only order-by value is \<open>null\<close> on both sides: \<open>typeof null\<close> is
  \<open>object\<close>, the table has no entry for it, and \<open>compare\<close> ends in the TypeError of
  \<open>this._typeOrdComparator[type1].ord\<close> instead of treating the two values as equal and
  going on (here, to the comparison of the lower bounds).
\<close>

theorem compare_null_items_TypeError:
  "compare [''Ascending''] (bufferedProducer ''0000'' [[(''item'', JNull)]])
                            (bufferedProducer ''3FFF'' [[(''item'', JNull)]])
     = Inl (TypeError ''cannot read property ord of undefined'')"
  by (simp add: compare_eval)

text \<open>
  C9, as the code has it.  For an order-by entry with no property named \<open>false\<close> (the
  entries \<open>{item: v}\<close> and \<open>{}\<close> of the wire format are such): \<open>getType\<close> gives \<open>typeof\<close> of
  the entry's \<open>item\<close>, never \<open>NoValue\<close>, and never a kind of rank 0; an entry without
  \<open>item\<close> is classified \<open>undefined\<close> and is compared, on either side, exactly as the
  entry whose \<open>item\<close> is \<open>undefined\<close>.  For every entry whatsoever, \<open>getType\<close> does not
  throw.
\<close>

theorem getType_without_false_property:
  "\<not> has_property ''false'' ob \<Longrightarrow>
   getType ob = Inr (typeof (get_property ob ''item'')) \<and>
   getType ob \<noteq> Inr ''NoValue'' \<and>
   (\<forall>t. getType ob = Inr t \<longrightarrow> ord_of t \<noteq> Some 0) \<and>
   (\<not> has_property ''item'' ob \<longrightarrow>
      getType ob = Inr ''undefined'' \<and>
      (\<forall>other. compareOrderByItem ob other = compareOrderByItem [(''item'', JUndefined)] other \<and>
               compareOrderByItem other ob = compareOrderByItem other [(''item'', JUndefined)])) \<and>
   (\<forall>any e. getType any \<noteq> Inl e)"
proof -
  assume nf: "\<not> has_property ''false'' ob"
  then have g: "getType ob = Inr (typeof (get_property ob ''item''))"
    by (simp add: getType_unfold)
  have nv: "getType ob \<noteq> Inr ''NoValue''"
    by (simp add: g typeof_not_NoValue)
  have rank: "ord_of t \<noteq> Some 0" if "getType ob = Inr t" for t
  proof
    assume "ord_of t = Some 0"
    then have "t = ''NoValue''"
      by (auto dest: ord_of_cases)
    with that nv show False by simp
  qed
  have absent: "getType ob = Inr ''undefined'' \<and>
      (\<forall>other. compareOrderByItem ob other = compareOrderByItem [(''item'', JUndefined)] other \<and>
               compareOrderByItem other ob = compareOrderByItem other [(''item'', JUndefined)])"
    if "\<not> has_property ''item'' ob"
  proof -
    from that have i: "get_property ob ''item'' = JUndefined"
      by (simp add: has_property_def get_property_def)
    have u: "getType [(''item'', JUndefined)] = Inr ''undefined''"
      "get_property [(''item'', JUndefined)] ''item'' = JUndefined"
      by (simp_all add: getType_unfold has_property_def get_property_def)
    from g i u show ?thesis
      by (auto simp: compareOrderByItem_def split: sum.splits)
  qed
  from g nv rank absent show ?thesis
    by (simp add: getType_no_throw)
qed

theorem getType_without_false_property_witness:
  "\<not> has_property ''false'' ([] :: jsobject) \<and> \<not> has_property ''item'' ([] :: jsobject) \<and>
   getType [] = Inr ''undefined'' \<and>
   compareOrderByItem [] [(''item'', JUndefined)] = Inr 0 \<and>
   compareOrderByItem [] [(''item'', JNum 5)] = Inr (- 3)"
proof -
  have h: "\<not> has_property ''false'' ([] :: jsobject)" "\<not> has_property ''item'' ([] :: jsobject)"
    by (simp_all add: has_property_def)
  have c: "compareOrderByItem [(''item'', JUndefined)] [(''item'', JUndefined)] = Inr 0"
    "compareOrderByItem [(''item'', JUndefined)] [(''item'', JNum 5)] = Inr (- 3)"
    by (simp_all add: compare_eval)
  from getType_without_false_property [OF h(1)] h c show ?thesis
    by (simp add: get_property_def)
qed

text \<open>
  C9 as stated fails twice.  An entry that has a property named \<open>false\<close> makes
  \<open>!'item' in orderByItem\<close> true, and \<open>getType\<close> returns \<open>NoValue\<close>.  And a \<open>null\<close> value
  is told apart from an absent one: the absent one is classified \<open>undefined\<close> and two
  of them compare equal, the \<open>null\<close> one is classified \<open>object\<close> and comparing two of
  them throws.
\<close>

theorem getType_NoValue_and_null_kinds:
  "getType [(''false'', JNum 1), (''item'', JNum 5)] = Inr ''NoValue'' \<and>
   getType [] = Inr ''undefined'' \<and>
   getType [(''item'', JNull)] = Inr ''object'' \<and>
   compareOrderByItem [] [] = Inr 0 \<and>
   compareOrderByItem [(''item'', JNull)] [(''item'', JNull)]
     = Inl (TypeError ''cannot read property ord of undefined'')"
  by (simp add: compare_eval)

end
